theory Spec2Isabelle
  imports Complex_Main
begin

section \<open>Preset pass manager for optimization level 2\<close>

text \<open>
  A shallow embedding of \<^verbatim>\<open>level_2_pass_manager\<close> of
  \<^verbatim>\<open>qiskit/transpiler/preset_passmanagers/level2.py\<close>. The function reads a
  \<^verbatim>\<open>PassManagerConfig\<close>, asks the stage plugin manager for the stages selected by
  name, calls three factories of the module \<^verbatim>\<open>common\<close> and returns a
  \<^verbatim>\<open>StagedPassManager\<close>. A raise of the Python code is the left injection of a sum,
  and every call of \<^verbatim>\<open>get_passmanager_stage\<close> is recorded in a trace, so that
  statements about which lookups are performed, and with which names, can be made.
\<close>

subsection \<open>Values read from the configuration\<close>

text \<open>
  Modelled from the spec: the class \<^verbatim>\<open>CouplingMap\<close> is not part of the sources. The
  connectivity graph is a directed graph over physical positions, given by its edges; it
  is symmetric when every edge has its reverse. The class defines no truth value of its
  own, so every coupling map object is true in a condition (``connectivity graph
  present'').
\<close>

datatype coupling_map = CouplingMap "(nat \<times> nat) list"

fun get_edges :: "coupling_map \<Rightarrow> (nat \<times> nat) list" where
  "get_edges (CouplingMap es) = es"

definition is_symmetric :: "coupling_map \<Rightarrow> bool" where
  "is_symmetric cm = list_all (\<lambda>e. (snd e, fst e) \<in> set (get_edges cm)) (get_edges cm)"

text \<open>
  Modelled from the spec: the class \<^verbatim>\<open>Layout\<close> is not part of the sources. A
  user-supplied placement assigns program qubits to physical positions; as a sized
  container it is true in a condition exactly when it is not empty.
\<close>

datatype layout_map = Layout "(nat \<times> nat) list"

fun layout_len :: "layout_map \<Rightarrow> nat" where
  "layout_len (Layout ps) = length ps"

text \<open>
  Modelled from the spec: the class \<^verbatim>\<open>Target\<close> is not part of the sources. The
  function reads it only through \<^verbatim>\<open>get_non_global_operation_names\<close>, the names of
  the operations that are not available on every qubit pair, with the direction of a pair
  taken into account (strict) or not.
\<close>

record target =
  operation_names :: "string list"
  non_global_strict :: "string list"
  non_global_loose :: "string list"

definition get_non_global_operation_names :: "target \<Rightarrow> bool \<Rightarrow> string list" where
  "get_non_global_operation_names t strict_direction =
     (if strict_direction then non_global_strict t else non_global_loose t)"

type_synonym options_bag = "(string \<times> string) list"

text \<open>
  Modelled from the spec: the class \<^verbatim>\<open>PassManagerConfig\<close> is not part of the sources;
  these are the attributes \<^verbatim>\<open>level_2_pass_manager\<close> reads (lines 51 to 64). An
  attribute that is \<^verbatim>\<open>None\<close> is \<open>None\<close> here.
\<close>

record pass_manager_config =
  basis_gates :: "string list option"
  coupling_map :: "coupling_map option"
  initial_layout :: "layout_map option"
  init_method :: "string option"
  layout_method :: "string option"
  routing_method :: "string option"
  translation_method :: "string option"
  optimization_method :: "string option"
  scheduling_method :: "string option"
  approximation_degree :: "real option"
  unitary_synthesis_method :: "string"
  unitary_synthesis_plugin_config :: "options_bag option"
  target :: "target option"
  hls_config :: "options_bag option"

subsection \<open>Truth values of Python objects\<close>

text \<open>
  \<^verbatim>\<open>x or "default"\<close> on an optional string: \<^verbatim>\<open>None\<close> and the empty string are
  both false, so both give the default.
\<close>

definition str_or :: "string option \<Rightarrow> string \<Rightarrow> string" where
  "str_or x d = (case x of None \<Rightarrow> d | Some s \<Rightarrow> if s = [] then d else s)"

definition truthy_coupling_map :: "coupling_map option \<Rightarrow> bool" where
  "truthy_coupling_map x = (case x of None \<Rightarrow> False | Some cm \<Rightarrow> True)"

definition truthy_layout :: "layout_map option \<Rightarrow> bool" where
  "truthy_layout x = (case x of None \<Rightarrow> False | Some l \<Rightarrow> layout_len l \<noteq> 0)"

subsection \<open>Pass managers\<close>

text \<open>
  Modelled from the spec: the classes \<^verbatim>\<open>PassManager\<close> and \<^verbatim>\<open>StagedPassManager\<close>
  and the module \<^verbatim>\<open>common\<close> are not part of the sources. A stage is an ordered
  sequence of tasks, and \<^verbatim>\<open>+=\<close> appends. The factories
  \<^verbatim>\<open>generate_unroll_3q\<close> and \<^verbatim>\<open>generate_control_flow_options_check\<close> are kept
  symbolic: each yields one task that records the arguments of the call. The stage of
  \<^verbatim>\<open>generate_pre_op_passmanager\<close> is made of the passes it holds: the check and the
  rewriting of gate directions, both bound to a coupling map and a target, and the
  removal of resets in the zero state. A task of a plugin is opaque.
\<close>

datatype task =
    Unroll3q "target option" "string list option" "real option" string
      "options_bag option" "options_bag option"
  | CheckGateDirection coupling_map "target option"
  | GateDirection coupling_map "target option"
  | RemoveResetInZeroState
  | ControlFlowOptionsCheck string string string string string
      "string list option" "target option"
  | PluginTask string

type_synonym passmanager = "task list"

definition generate_unroll_3q ::
  "target option \<Rightarrow> string list option \<Rightarrow> real option \<Rightarrow> string \<Rightarrow>
   options_bag option \<Rightarrow> options_bag option \<Rightarrow> passmanager" where
  "generate_unroll_3q tgt basis approx synth_method synth_config hls =
     [Unroll3q tgt basis approx synth_method synth_config hls]"

text \<open>
  Modelled from the spec: \<^verbatim>\<open>common.generate_pre_op_passmanager\<close> is not part of the
  sources. Its parameters are the ones the two calls in \<^verbatim>\<open>level_2_pass_manager\<close>
  show: the target, the coupling map and, named by the keyword of line 98,
  \<^verbatim>\<open>remove_reset_in_zero\<close>; an argument that a call leaves out is \<^verbatim>\<open>None\<close>. The
  direction-fixing passes of the stage are bound to the coupling map and the target and
  are built from the coupling map, so the stage has them only when a coupling map is
  given. The removal of resets in the zero state is added when the switch is on.
\<close>

definition generate_pre_op_passmanager ::
  "target option \<Rightarrow> coupling_map option \<Rightarrow> bool \<Rightarrow> passmanager" where
  "generate_pre_op_passmanager tgt cm remove_reset_in_zero =
     (case cm of
        None \<Rightarrow> []
      | Some c \<Rightarrow> [CheckGateDirection c tgt, GateDirection c tgt]) @
     (if remove_reset_in_zero then [RemoveResetInZeroState] else [])"

definition generate_control_flow_options_check ::
  "string \<Rightarrow> string \<Rightarrow> string \<Rightarrow> string \<Rightarrow> string \<Rightarrow>
   string list option \<Rightarrow> target option \<Rightarrow> passmanager" where
  "generate_control_flow_options_check layout_m routing_m translation_m optimization_m
     scheduling_m basis tgt =
     [ControlFlowOptionsCheck layout_m routing_m translation_m optimization_m
        scheduling_m basis tgt]"

record staged_pass_manager =
  init :: "passmanager option"
  layout :: "passmanager option"
  routing :: "passmanager option"
  translation :: "passmanager option"
  pre_optimization :: "passmanager option"
  optimization :: "passmanager option"
  scheduling :: "passmanager option"

subsection \<open>The stage plugin manager\<close>

datatype error = ResolutionError string string | ConfigError string

text \<open>
  Modelled from the spec: the class \<^verbatim>\<open>PassManagerStagePluginManager\<close> is not part of
  the sources. The registry maps a stage kind and a method name to a builder; a lookup
  of a pair with no entry fails with \<open>ResolutionError\<close>, and the builder of an entry
  gets the configuration and the optimization level and returns a stage or an error of
  its own. The registry is not written during the call, so it is a parameter.
\<close>

type_synonym stage_plugin = "pass_manager_config \<Rightarrow> int \<Rightarrow> error + passmanager"

type_synonym registry = "string \<Rightarrow> string \<Rightarrow> stage_plugin option"

definition lookup ::
  "registry \<Rightarrow> string \<Rightarrow> string \<Rightarrow> pass_manager_config \<Rightarrow> int \<Rightarrow> error + passmanager" where
  "lookup reg stage_name plugin_name cfg optimization_level =
     (case reg stage_name plugin_name of
        None \<Rightarrow> Inl (ResolutionError stage_name plugin_name)
      | Some build \<Rightarrow> build cfg optimization_level)"

text \<open>
  A computation that may raise and that records the lookups it performs: it takes the
  trace so far and returns its outcome with the trace extended. A raise ends the
  computation: \<open>bind_traced\<close> does not run what follows.
\<close>

type_synonym call = "string \<times> string"

type_synonym 'a traced = "call list \<Rightarrow> (error + 'a) \<times> call list"

definition return_traced :: "'a \<Rightarrow> 'a traced" where
  "return_traced x = (\<lambda>tr. (Inr x, tr))"

definition bind_traced :: "'a traced \<Rightarrow> ('a \<Rightarrow> 'b traced) \<Rightarrow> 'b traced" where
  "bind_traced m f =
     (\<lambda>tr. case m tr of (Inl e, tr') \<Rightarrow> (Inl e, tr') | (Inr x, tr') \<Rightarrow> f x tr')"

definition get_passmanager_stage ::
  "registry \<Rightarrow> string \<Rightarrow> string \<Rightarrow> pass_manager_config \<Rightarrow> int \<Rightarrow> passmanager traced" where
  "get_passmanager_stage reg stage_name plugin_name cfg optimization_level =
     (\<lambda>tr. (lookup reg stage_name plugin_name cfg optimization_level,
            tr @ [(stage_name, plugin_name)]))"

subsection \<open>The function\<close>

definition level_2_pass_manager ::
  "registry \<Rightarrow> pass_manager_config \<Rightarrow> staged_pass_manager traced" where
  "level_2_pass_manager plugin_manager pass_manager_config =
    (let basis_gates = basis_gates pass_manager_config;
         coupling_map = coupling_map pass_manager_config;
         initial_layout = initial_layout pass_manager_config;
         init_method = init_method pass_manager_config;
         layout_method = str_or (layout_method pass_manager_config) ''default'';
         routing_method = str_or (routing_method pass_manager_config) ''sabre'';
         translation_method = str_or (translation_method pass_manager_config) ''translator'';
         optimization_method = str_or (optimization_method pass_manager_config) ''default'';
         scheduling_method = str_or (scheduling_method pass_manager_config) ''default'';
         approximation_degree = approximation_degree pass_manager_config;
         unitary_synthesis_method = unitary_synthesis_method pass_manager_config;
         unitary_synthesis_plugin_config = unitary_synthesis_plugin_config pass_manager_config;
         target = target pass_manager_config;
         hls_config = hls_config pass_manager_config
     in
     bind_traced
       (get_passmanager_stage plugin_manager ''routing'' routing_method pass_manager_config 2)
       (\<lambda>routing_pm.
     bind_traced
       (if truthy_coupling_map coupling_map \<or> truthy_layout initial_layout then
          (let unroll_3q = generate_unroll_3q target basis_gates approximation_degree
                 unitary_synthesis_method unitary_synthesis_plugin_config hls_config
           in
           bind_traced
             (get_passmanager_stage plugin_manager ''layout'' layout_method
                pass_manager_config 2)
             (\<lambda>layout. return_traced (Some unroll_3q, Some layout, Some routing_pm)))
        else return_traced (None, None, None))
       (\<lambda>(unroll_3q, layout, routing).
     bind_traced
       (get_passmanager_stage plugin_manager ''translation'' translation_method
          pass_manager_config 2)
       (\<lambda>translation.
     let pre_optimization =
           (if (truthy_coupling_map coupling_map \<and>
                  (case coupling_map of None \<Rightarrow> False | Some cm \<Rightarrow> \<not> is_symmetric cm)) \<or>
               (case target of None \<Rightarrow> False
                | Some t \<Rightarrow> get_non_global_operation_names t True \<noteq> [])
            then generate_pre_op_passmanager target coupling_map True
            else generate_pre_op_passmanager None None True)
     in
     bind_traced
       (get_passmanager_stage plugin_manager ''optimization'' optimization_method
          pass_manager_config 2)
       (\<lambda>optimization.
     bind_traced
       (get_passmanager_stage plugin_manager ''scheduling'' scheduling_method
          pass_manager_config 2)
       (\<lambda>sched.
     let init = generate_control_flow_options_check layout_method routing_method
                  translation_method optimization_method scheduling_method basis_gates target
     in
     bind_traced
       (case init_method of
          Some m \<Rightarrow>
            bind_traced
              (get_passmanager_stage plugin_manager ''init'' m pass_manager_config 2)
              (\<lambda>p. return_traced (init @ p))
        | None \<Rightarrow>
            (case unroll_3q of
               Some u \<Rightarrow> return_traced (init @ u)
             | None \<Rightarrow> return_traced init))
       (\<lambda>init.
     return_traced
       \<lparr> init = Some init,
         layout = layout,
         routing = routing,
         translation = Some translation,
         pre_optimization = Some pre_optimization,
         optimization = Some optimization,
         scheduling = Some sched \<rparr>)))))))"

subsection \<open>The variant that resolves the routing stage lazily\<close>

text \<open>
  This definition follows the words of the specification, not the source: the design
  notes propose to ``resolve routing lazily inside the true-branch of step 2''. It is
  \<open>level_2_pass_manager\<close> with the lookup of the routing stage moved from before the
  branch to the first place inside the branch that uses it; nothing else is changed.
\<close>

definition level_2_pass_manager_lazy ::
  "registry \<Rightarrow> pass_manager_config \<Rightarrow> staged_pass_manager traced" where
  "level_2_pass_manager_lazy plugin_manager pass_manager_config =
    (let basis_gates = basis_gates pass_manager_config;
         coupling_map = coupling_map pass_manager_config;
         initial_layout = initial_layout pass_manager_config;
         init_method = init_method pass_manager_config;
         layout_method = str_or (layout_method pass_manager_config) ''default'';
         routing_method = str_or (routing_method pass_manager_config) ''sabre'';
         translation_method = str_or (translation_method pass_manager_config) ''translator'';
         optimization_method = str_or (optimization_method pass_manager_config) ''default'';
         scheduling_method = str_or (scheduling_method pass_manager_config) ''default'';
         approximation_degree = approximation_degree pass_manager_config;
         unitary_synthesis_method = unitary_synthesis_method pass_manager_config;
         unitary_synthesis_plugin_config = unitary_synthesis_plugin_config pass_manager_config;
         target = target pass_manager_config;
         hls_config = hls_config pass_manager_config
     in
     bind_traced
       (if truthy_coupling_map coupling_map \<or> truthy_layout initial_layout then
          bind_traced
            (get_passmanager_stage plugin_manager ''routing'' routing_method
               pass_manager_config 2)
            (\<lambda>routing_pm.
          (let unroll_3q = generate_unroll_3q target basis_gates approximation_degree
                 unitary_synthesis_method unitary_synthesis_plugin_config hls_config
           in
           bind_traced
             (get_passmanager_stage plugin_manager ''layout'' layout_method
                pass_manager_config 2)
             (\<lambda>layout. return_traced (Some unroll_3q, Some layout, Some routing_pm))))
        else return_traced (None, None, None))
       (\<lambda>(unroll_3q, layout, routing).
     bind_traced
       (get_passmanager_stage plugin_manager ''translation'' translation_method
          pass_manager_config 2)
       (\<lambda>translation.
     let pre_optimization =
           (if (truthy_coupling_map coupling_map \<and>
                  (case coupling_map of None \<Rightarrow> False | Some cm \<Rightarrow> \<not> is_symmetric cm)) \<or>
               (case target of None \<Rightarrow> False
                | Some t \<Rightarrow> get_non_global_operation_names t True \<noteq> [])
            then generate_pre_op_passmanager target coupling_map True
            else generate_pre_op_passmanager None None True)
     in
     bind_traced
       (get_passmanager_stage plugin_manager ''optimization'' optimization_method
          pass_manager_config 2)
       (\<lambda>optimization.
     bind_traced
       (get_passmanager_stage plugin_manager ''scheduling'' scheduling_method
          pass_manager_config 2)
       (\<lambda>sched.
     let init = generate_control_flow_options_check layout_method routing_method
                  translation_method optimization_method scheduling_method basis_gates target
     in
     bind_traced
       (case init_method of
          Some m \<Rightarrow>
            bind_traced
              (get_passmanager_stage plugin_manager ''init'' m pass_manager_config 2)
              (\<lambda>p. return_traced (init @ p))
        | None \<Rightarrow>
            (case unroll_3q of
               Some u \<Rightarrow> return_traced (init @ u)
             | None \<Rightarrow> return_traced init))
       (\<lambda>init.
     return_traced
       \<lparr> init = Some init,
         layout = layout,
         routing = routing,
         translation = Some translation,
         pre_optimization = Some pre_optimization,
         optimization = Some optimization,
         scheduling = Some sched \<rparr>))))))"

subsection \<open>Concrete registries and configurations\<close>

text \<open>
  A registry with one entry for each default method name and an init method
  \<open>custom\<close>; the stage of an entry is one opaque task named after the entry.
\<close>

definition plugin_stage :: "string \<Rightarrow> string \<Rightarrow> stage_plugin" where
  "plugin_stage k n = (\<lambda>cfg lvl. Inr [PluginTask (k @ ''.'' @ n)])"

definition example_registry :: registry where
  "example_registry k n =
     (if (k, n) \<in> set [(''routing'', ''sabre''), (''layout'', ''default''),
                        (''translation'', ''translator''), (''optimization'', ''default''),
                        (''scheduling'', ''default''), (''init'', ''custom'')]
      then Some (plugin_stage k n) else None)"

text \<open>Scenario A of the specification: no connectivity, no placement, every method default.\<close>

definition config_a :: pass_manager_config where
  "config_a =
     \<lparr> basis_gates = Some [''cx'', ''u''], coupling_map = None, initial_layout = None,
       init_method = None, layout_method = None, routing_method = None,
       translation_method = None, optimization_method = None, scheduling_method = None,
       approximation_degree = None, unitary_synthesis_method = ''default'',
       unitary_synthesis_plugin_config = None, target = None, hls_config = None \<rparr>"

text \<open>Scenario B: a ring of five positions with edges in one direction only.\<close>

definition ring_5 :: coupling_map where
  "ring_5 = CouplingMap [(0, 1), (1, 2), (2, 3), (3, 4), (4, 0)]"

definition config_b :: pass_manager_config where
  "config_b = config_a \<lparr> coupling_map := Some ring_5 \<rparr>"

text \<open>Scenario C: scenario B with the init method \<open>custom\<close>.\<close>

definition config_c :: pass_manager_config where
  "config_c = config_b \<lparr> init_method := Some ''custom'' \<rparr>"







text \<open>Scenario A with selections that the registry does not know, or that are empty.\<close>

definition config_unknown_routing :: pass_manager_config where
  "config_unknown_routing = config_a \<lparr> routing_method := Some ''bogus'' \<rparr>"

definition config_unknown_translation :: pass_manager_config where
  "config_unknown_translation = config_a \<lparr> translation_method := Some ''bogus'' \<rparr>"

definition config_empty_routing :: pass_manager_config where
  "config_empty_routing = config_a \<lparr> routing_method := Some [] \<rparr>"

section \<open>Properties\<close>

subsection \<open>Rules for traced computations\<close>

lemma bind_traced_Inr:
  "bind_traced m f tr = (Inr y, tr2) \<longleftrightarrow>
     (\<exists>x tr1. m tr = (Inr x, tr1) \<and> f x tr1 = (Inr y, tr2))"
  by (cases "m tr") (auto simp: bind_traced_def split: sum.splits)

lemma return_traced_eq:
  "return_traced x tr = (r, tr2) \<longleftrightarrow> r = Inr x \<and> tr2 = tr"
  by (auto simp: return_traced_def)

lemma get_passmanager_stage_eq:
  "get_passmanager_stage reg k n cfg l tr = (r, tr2) \<longleftrightarrow>
     lookup reg k n cfg l = r \<and> tr2 = tr @ [(k, n)]"
  by (auto simp: get_passmanager_stage_def)

lemma if_traced:
  "(if c then A else B) tr = r \<longleftrightarrow> (c \<longrightarrow> A tr = r) \<and> (\<not> c \<longrightarrow> B tr = r)"
  by simp

lemma case_option_traced:
  "(case x of None \<Rightarrow> A | Some m \<Rightarrow> B m) tr = r \<longleftrightarrow>
     (x = None \<longrightarrow> A tr = r) \<and> (\<forall>m. x = Some m \<longrightarrow> B m tr = r)"
  by (cases x) simp_all

lemmas traced_simps = bind_traced_Inr return_traced_eq get_passmanager_stage_eq
  if_traced case_option_traced

lemma fst_InrD: "fst (m tr) = Inr pm \<Longrightarrow> \<exists>tr2. m tr = (Inr pm, tr2)"
  by (cases "m tr") simp


lemma level_2_pass_manager_Inr:
  assumes run: "level_2_pass_manager reg cfg tr = (Inr pm, tr2)"
  shows "(\<exists>t. lookup reg ''translation'' (str_or (translation_method cfg) ''translator'') cfg 2
            = Inr t \<and> translation pm = Some t) \<and>
    (\<exists>opt. lookup reg ''optimization'' (str_or (optimization_method cfg) ''default'') cfg 2
            = Inr opt \<and> optimization pm = Some opt) \<and>
    (\<exists>s. lookup reg ''scheduling'' (str_or (scheduling_method cfg) ''default'') cfg 2
            = Inr s \<and> scheduling pm = Some s) \<and>
    (\<exists>r. lookup reg ''routing'' (str_or (routing_method cfg) ''sabre'') cfg 2 = Inr r \<and>
       (if truthy_coupling_map (coupling_map cfg) \<or> truthy_layout (initial_layout cfg)
        then (\<exists>l. lookup reg ''layout'' (str_or (layout_method cfg) ''default'') cfg 2 = Inr l \<and>
                 layout pm = Some l) \<and> routing pm = Some r
        else layout pm = None \<and> routing pm = None)) \<and>
    pre_optimization pm = Some
     (if (truthy_coupling_map (coupling_map cfg) \<and>
           (case coupling_map cfg of None \<Rightarrow> False | Some cm \<Rightarrow> \<not> is_symmetric cm)) \<or>
         (case target cfg of None \<Rightarrow> False
          | Some t \<Rightarrow> get_non_global_operation_names t True \<noteq> [])
      then generate_pre_op_passmanager (target cfg) (coupling_map cfg) True
      else generate_pre_op_passmanager None None True) \<and>
    (\<exists>p. (case init_method cfg of
            Some m \<Rightarrow> lookup reg ''init'' m cfg 2 = Inr p
          | None \<Rightarrow> p =
              (if truthy_coupling_map (coupling_map cfg) \<or> truthy_layout (initial_layout cfg)
               then generate_unroll_3q (target cfg) (basis_gates cfg) (approximation_degree cfg)
                  (unitary_synthesis_method cfg) (unitary_synthesis_plugin_config cfg)
                  (hls_config cfg)
               else [])) \<and>
       init pm = Some (generate_control_flow_options_check
             (str_or (layout_method cfg) ''default'') (str_or (routing_method cfg) ''sabre'')
             (str_or (translation_method cfg) ''translator'')
             (str_or (optimization_method cfg) ''default'')
             (str_or (scheduling_method cfg) ''default'') (basis_gates cfg) (target cfg) @ p))"
proof (cases "truthy_coupling_map (coupling_map cfg) \<or> truthy_layout (initial_layout cfg)")
  case mapping: True
  show ?thesis
  proof (cases "init_method cfg")
    case None
    from run mapping None show ?thesis
      apply (simp add: level_2_pass_manager_def Let_def traced_simps)
      apply (elim exE conjE)
      apply simp
      done
  next
    case (Some m)
    from run mapping Some show ?thesis
      apply (simp add: level_2_pass_manager_def Let_def traced_simps)
      apply (elim exE conjE)
      apply simp
      done
  qed
next
  case no_mapping: False
  show ?thesis
  proof (cases "init_method cfg")
    case None
    from run no_mapping None show ?thesis
      apply (simp add: level_2_pass_manager_def Let_def traced_simps)
      apply (elim exE conjE)
      apply simp
      done
  next
    case (Some m)
    from run no_mapping Some show ?thesis
      apply (simp add: level_2_pass_manager_def Let_def traced_simps)
      apply (elim exE conjE)
      apply simp
      done
  qed
qed

subsection \<open>Runs on the concrete configurations\<close>

lemmas run_defs = level_2_pass_manager_def level_2_pass_manager_lazy_def Let_def
  bind_traced_def return_traced_def get_passmanager_stage_def lookup_def str_or_def
  truthy_coupling_map_def truthy_layout_def is_symmetric_def
  get_non_global_operation_names_def generate_unroll_3q_def generate_pre_op_passmanager_def
  generate_control_flow_options_check_def example_registry_def plugin_stage_def

lemma run_config_a:
  "level_2_pass_manager example_registry config_a tr =
     (Inr \<lparr> init = Some [ControlFlowOptionsCheck ''default'' ''sabre'' ''translator''
                ''default'' ''default'' (Some [''cx'', ''u'']) None],
            layout = None, routing = None,
            translation = Some [PluginTask ''translation.translator''],
            pre_optimization = Some [RemoveResetInZeroState],
            optimization = Some [PluginTask ''optimization.default''],
            scheduling = Some [PluginTask ''scheduling.default''] \<rparr>,
      tr @ [(''routing'', ''sabre''), (''translation'', ''translator''),
            (''optimization'', ''default''), (''scheduling'', ''default'')])"
  by (simp add: run_defs config_a_def)

lemma run_config_b:
  "level_2_pass_manager example_registry config_b tr =
     (Inr \<lparr> init = Some [ControlFlowOptionsCheck ''default'' ''sabre'' ''translator''
                ''default'' ''default'' (Some [''cx'', ''u'']) None,
                Unroll3q None (Some [''cx'', ''u'']) None ''default'' None None],
            layout = Some [PluginTask ''layout.default''],
            routing = Some [PluginTask ''routing.sabre''],
            translation = Some [PluginTask ''translation.translator''],
            pre_optimization = Some [CheckGateDirection ring_5 None, GateDirection ring_5 None,
              RemoveResetInZeroState],
            optimization = Some [PluginTask ''optimization.default''],
            scheduling = Some [PluginTask ''scheduling.default''] \<rparr>,
      tr @ [(''routing'', ''sabre''), (''layout'', ''default''),
            (''translation'', ''translator''),
            (''optimization'', ''default''), (''scheduling'', ''default'')])"
  by (simp add: run_defs config_a_def config_b_def ring_5_def)

lemma run_config_c:
  "level_2_pass_manager example_registry config_c tr =
     (Inr \<lparr> init = Some [ControlFlowOptionsCheck ''default'' ''sabre'' ''translator''
                ''default'' ''default'' (Some [''cx'', ''u'']) None,
                PluginTask ''init.custom''],
            layout = Some [PluginTask ''layout.default''],
            routing = Some [PluginTask ''routing.sabre''],
            translation = Some [PluginTask ''translation.translator''],
            pre_optimization = Some [CheckGateDirection ring_5 None, GateDirection ring_5 None,
              RemoveResetInZeroState],
            optimization = Some [PluginTask ''optimization.default''],
            scheduling = Some [PluginTask ''scheduling.default''] \<rparr>,
      tr @ [(''routing'', ''sabre''), (''layout'', ''default''),
            (''translation'', ''translator''),
            (''optimization'', ''default''), (''scheduling'', ''default''),
            (''init'', ''custom'')])"
  by (simp add: run_defs config_a_def config_b_def config_c_def ring_5_def)




lemma run_config_unknown_routing:
  "level_2_pass_manager example_registry config_unknown_routing tr =
     (Inl (ResolutionError ''routing'' ''bogus''), tr @ [(''routing'', ''bogus'')])"
  by (simp add: run_defs config_a_def config_unknown_routing_def)


lemma run_config_unknown_translation:
  "level_2_pass_manager example_registry config_unknown_translation tr =
     (Inl (ResolutionError ''translation'' ''bogus''),
      tr @ [(''routing'', ''sabre''), (''translation'', ''bogus'')])"
  by (simp add: run_defs config_a_def config_unknown_translation_def)

lemma run_config_empty_routing:
  "level_2_pass_manager example_registry config_empty_routing tr =
     (Inr \<lparr> init = Some [ControlFlowOptionsCheck ''default'' ''sabre'' ''translator''
                ''default'' ''default'' (Some [''cx'', ''u'']) None],
            layout = None, routing = None,
            translation = Some [PluginTask ''translation.translator''],
            pre_optimization = Some [RemoveResetInZeroState],
            optimization = Some [PluginTask ''optimization.default''],
            scheduling = Some [PluginTask ''scheduling.default''] \<rparr>,
      tr @ [(''routing'', ''sabre''), (''translation'', ''translator''),
            (''optimization'', ''default''), (''scheduling'', ''default'')])"
  by (simp add: run_defs config_a_def config_empty_routing_def)

subsection \<open>The slots of the result\<close>

text \<open>
  Claim C1. When the configuration has no coupling map and no initial layout, the
  staged pass manager that \<open>level_2_pass_manager\<close> returns has \<open>None\<close> in its
  layout slot and in its routing slot.
\<close>

theorem no_mapping_slots_absent:
  assumes "coupling_map cfg = None" and "initial_layout cfg = None"
    and "fst (level_2_pass_manager reg cfg tr) = Inr pm"
  shows "layout pm = None \<and> routing pm = None"
proof -
  from assms(3) obtain tr2 where "level_2_pass_manager reg cfg tr = (Inr pm, tr2)"
    by (blast dest: fst_InrD)
  from level_2_pass_manager_Inr [OF this] assms(1,2) show ?thesis
    by (simp add: truthy_coupling_map_def truthy_layout_def)
qed

theorem no_mapping_slots_absent_witness:
  "\<exists>pm. fst (level_2_pass_manager example_registry config_a []) = Inr pm \<and>
        coupling_map config_a = None \<and> initial_layout config_a = None \<and>
        layout pm = None \<and> routing pm = None"
proof -
  obtain pm where run: "fst (level_2_pass_manager example_registry config_a []) = Inr pm"
    by (simp add: run_config_a)
  have absent: "coupling_map config_a = None" "initial_layout config_a = None"
    by (simp_all add: config_a_def)
  from no_mapping_slots_absent [OF absent run] run absent show ?thesis
    by blast
qed




text \<open>
  Claim C3. When the configuration has a coupling map, the layout and routing slots of
  the result are present and hold the stages the registry resolves; when moreover no init
  method is given, the init slot is the control-flow check followed by the stage of
  \<open>generate_unroll_3q\<close> built from the target, basis gates, approximation degree and
  synthesis settings of the configuration.
\<close>

theorem mapping_slots_present:
  assumes "fst (level_2_pass_manager reg cfg tr) = Inr pm"
    and "coupling_map cfg = Some cm"
  shows "(\<exists>l. lookup reg ''layout'' (str_or (layout_method cfg) ''default'') cfg 2 = Inr l \<and>
              layout pm = Some l) \<and>
         (\<exists>r. lookup reg ''routing'' (str_or (routing_method cfg) ''sabre'') cfg 2 = Inr r \<and>
              routing pm = Some r) \<and>
         (init_method cfg = None \<longrightarrow>
            init pm = Some (generate_control_flow_options_check
                (str_or (layout_method cfg) ''default'') (str_or (routing_method cfg) ''sabre'')
                (str_or (translation_method cfg) ''translator'')
                (str_or (optimization_method cfg) ''default'')
                (str_or (scheduling_method cfg) ''default'') (basis_gates cfg) (target cfg) @
              generate_unroll_3q (target cfg) (basis_gates cfg) (approximation_degree cfg)
                (unitary_synthesis_method cfg) (unitary_synthesis_plugin_config cfg)
                (hls_config cfg)))"
proof -
  from assms(1) obtain tr2 where "level_2_pass_manager reg cfg tr = (Inr pm, tr2)"
    by (blast dest: fst_InrD)
  from level_2_pass_manager_Inr [OF this] assms(2) show ?thesis
    by (auto simp: truthy_coupling_map_def)
qed

theorem mapping_slots_present_witness:
  "\<exists>pm. fst (level_2_pass_manager example_registry config_b []) = Inr pm \<and>
     layout pm = Some [PluginTask ''layout.default''] \<and>
     routing pm = Some [PluginTask ''routing.sabre''] \<and>
     init pm = Some [ControlFlowOptionsCheck ''default'' ''sabre'' ''translator''
                ''default'' ''default'' (Some [''cx'', ''u'']) None,
                Unroll3q None (Some [''cx'', ''u'']) None ''default'' None None]"
proof -
  obtain pm where run: "fst (level_2_pass_manager example_registry config_b []) = Inr pm"
    by (simp add: run_config_b)
  have cfg: "coupling_map config_b = Some ring_5"
    by (simp add: config_b_def)
  have vals: "init_method config_b = None" "layout_method config_b = None"
    "routing_method config_b = None" "translation_method config_b = None"
    "optimization_method config_b = None" "scheduling_method config_b = None"
    "basis_gates config_b = Some [''cx'', ''u'']" "target config_b = None"
    "approximation_degree config_b = None" "unitary_synthesis_method config_b = ''default''"
    "unitary_synthesis_plugin_config config_b = None" "hls_config config_b = None"
    by (simp_all add: config_b_def config_a_def)
  from mapping_slots_present [OF run cfg] run show ?thesis
    by (simp add: vals str_or_def lookup_def example_registry_def plugin_stage_def
        generate_control_flow_options_check_def generate_unroll_3q_def)
qed

text \<open>
  Claim C4. When an init method is given, the init slot is the control-flow check
  followed by exactly the stage the registry resolves for that name, whatever the
  coupling map and the initial layout are: the stage of \<open>generate_unroll_3q\<close> is
  not appended.
\<close>

theorem init_method_slot:
  assumes "fst (level_2_pass_manager reg cfg tr) = Inr pm"
    and "init_method cfg = Some m"
  shows "\<exists>p. lookup reg ''init'' m cfg 2 = Inr p \<and>
            init pm = Some (generate_control_flow_options_check
                (str_or (layout_method cfg) ''default'') (str_or (routing_method cfg) ''sabre'')
                (str_or (translation_method cfg) ''translator'')
                (str_or (optimization_method cfg) ''default'')
                (str_or (scheduling_method cfg) ''default'') (basis_gates cfg) (target cfg) @ p)"
proof -
  from assms(1) obtain tr2 where "level_2_pass_manager reg cfg tr = (Inr pm, tr2)"
    by (blast dest: fst_InrD)
  from level_2_pass_manager_Inr [OF this] assms(2) show ?thesis
    by auto
qed

theorem init_method_slot_witness:
  "\<exists>pm. fst (level_2_pass_manager example_registry config_c []) = Inr pm \<and>
     coupling_map config_c = Some ring_5 \<and>
     init pm = Some [ControlFlowOptionsCheck ''default'' ''sabre'' ''translator''
                ''default'' ''default'' (Some [''cx'', ''u'']) None,
                PluginTask ''init.custom'']"
proof -
  obtain pm where run: "fst (level_2_pass_manager example_registry config_c []) = Inr pm"
    by (simp add: run_config_c)
  have vals: "init_method config_c = Some ''custom''" "layout_method config_c = None"
    "routing_method config_c = None" "translation_method config_c = None"
    "optimization_method config_c = None" "scheduling_method config_c = None"
    "basis_gates config_c = Some [''cx'', ''u'']" "target config_c = None"
    "coupling_map config_c = Some ring_5"
    by (simp_all add: config_c_def config_b_def config_a_def)
  from init_method_slot [OF run vals(1)] run show ?thesis
    by (simp add: vals str_or_def lookup_def example_registry_def plugin_stage_def
        generate_control_flow_options_check_def)
qed




text \<open>
  Claim C10. In every staged pass manager that \<open>level_2_pass_manager\<close> returns, the
  init, translation, pre-optimization, optimization and scheduling slots are present;
  only layout and routing can be \<open>None\<close>.
\<close>

theorem mandatory_slots_present:
  assumes "fst (level_2_pass_manager reg cfg tr) = Inr pm"
  shows "init pm \<noteq> None \<and> translation pm \<noteq> None \<and> pre_optimization pm \<noteq> None \<and>
         optimization pm \<noteq> None \<and> scheduling pm \<noteq> None"
proof -
  from assms obtain tr2 where "level_2_pass_manager reg cfg tr = (Inr pm, tr2)"
    by (blast dest: fst_InrD)
  from level_2_pass_manager_Inr [OF this] show ?thesis
    by auto
qed

theorem mandatory_slots_present_witness:
  "\<exists>pm. fst (level_2_pass_manager example_registry config_a []) = Inr pm \<and>
     init pm \<noteq> None \<and> translation pm \<noteq> None \<and> pre_optimization pm \<noteq> None \<and>
     optimization pm \<noteq> None \<and> scheduling pm \<noteq> None \<and>
     layout pm = None \<and> routing pm = None"
proof -
  obtain pm where run: "fst (level_2_pass_manager example_registry config_a []) = Inr pm"
    by (simp add: run_config_a)
  from mandatory_slots_present [OF run] run show ?thesis
    by (auto simp: run_config_a)
qed

subsection \<open>The outcome does not depend on the trace\<close>

lemma fst_bind_traced:
  assumes "\<And>tr tr'. fst (m tr) = fst (m tr')"
    and "\<And>x tr tr'. fst (f x tr) = fst (f x tr')"
  shows "fst (bind_traced m f tr) = fst (bind_traced m f tr')"
proof -
  obtain r1 t1 where m1: "m tr = (r1, t1)" by (cases "m tr")
  obtain r2 t2 where m2: "m tr' = (r2, t2)" by (cases "m tr'")
  from assms(1) [of tr tr'] m1 m2 have eq: "r2 = r1" by simp
  show ?thesis
  proof (cases r1)
    case (Inl e)
    with m1 m2 eq show ?thesis by (simp add: bind_traced_def)
  next
    case (Inr x)
    with m1 m2 eq assms(2) [of x t1 t2] show ?thesis by (simp add: bind_traced_def)
  qed
qed

lemma fst_return_traced: "fst (return_traced x tr) = fst (return_traced x tr')"
  by (simp add: return_traced_def)

lemma fst_get_passmanager_stage:
  "fst (get_passmanager_stage reg k n cfg l tr) = fst (get_passmanager_stage reg k n cfg l tr')"
  by (simp add: get_passmanager_stage_def)

lemma fst_if_traced:
  assumes "c \<Longrightarrow> fst (A tr) = fst (A tr')" and "\<not> c \<Longrightarrow> fst (B tr) = fst (B tr')"
  shows "fst ((if c then A else B) tr) = fst ((if c then A else B) tr')"
  using assms by simp

lemma fst_case_option_traced:
  assumes "x = None \<Longrightarrow> fst (A tr) = fst (A tr')"
    and "\<And>y. x = Some y \<Longrightarrow> fst (B y tr) = fst (B y tr')"
  shows "fst ((case x of None \<Rightarrow> A | Some y \<Rightarrow> B y) tr) =
         fst ((case x of None \<Rightarrow> A | Some y \<Rightarrow> B y) tr')"
  using assms by (cases x) simp_all

lemma fst_case_prod3_traced:
  assumes "\<And>a b c. fst (g a b c tr) = fst (g a b c tr')"
  shows "fst ((case x of (a, b, c) \<Rightarrow> g a b c) tr) = fst ((case x of (a, b, c) \<Rightarrow> g a b c) tr')"
  using assms by (cases x) simp

lemmas fst_traced_intros = fst_bind_traced fst_return_traced fst_get_passmanager_stage
  fst_if_traced fst_case_option_traced fst_case_prod3_traced

lemma level_2_pass_manager_fst:
  "fst (level_2_pass_manager reg cfg tr) = fst (level_2_pass_manager reg cfg tr')"
  unfolding level_2_pass_manager_def Let_def
  by (intro fst_traced_intros)



subsection \<open>The lookups of a run\<close>

lemma bind_traced_eq:
  "bind_traced m f tr = (r, tr2) \<longleftrightarrow>
     (\<exists>e. m tr = (Inl e, tr2) \<and> r = Inl e) \<or>
     (\<exists>x tr1. m tr = (Inr x, tr1) \<and> f x tr1 = (r, tr2))"
  by (cases "m tr") (auto simp: bind_traced_def split: sum.splits)

lemmas trace_simps = bind_traced_eq return_traced_eq get_passmanager_stage_eq
  if_traced case_option_traced

lemma level_2_pass_manager_calls:
  assumes run: "level_2_pass_manager reg cfg tr = (r, tr2)"
  shows "\<exists>calls. tr2 = tr @ calls \<and> distinct (map fst calls) \<and>
    (\<forall>c \<in> set calls.
       (\<forall>e. lookup reg (fst c) (snd c) cfg 2 = Inl e \<longrightarrow> r = Inl e) \<and>
       (fst c = ''layout'' \<longrightarrow> snd c = str_or (layout_method cfg) ''default'') \<and>
       (fst c = ''routing'' \<longrightarrow> snd c = str_or (routing_method cfg) ''sabre'') \<and>
       (fst c = ''translation'' \<longrightarrow> snd c = str_or (translation_method cfg) ''translator'') \<and>
       (fst c = ''optimization'' \<longrightarrow> snd c = str_or (optimization_method cfg) ''default'') \<and>
       (fst c = ''scheduling'' \<longrightarrow> snd c = str_or (scheduling_method cfg) ''default''))"
proof (cases "truthy_coupling_map (coupling_map cfg) \<or> truthy_layout (initial_layout cfg)")
  case mapping: True
  show ?thesis
  proof (cases "init_method cfg")
    case None
    from run mapping None show ?thesis
      apply (simp add: level_2_pass_manager_def Let_def trace_simps)
      apply (elim exE conjE disjE)
      apply simp_all
      done
  next
    case (Some m)
    from run mapping Some show ?thesis
      apply (simp add: level_2_pass_manager_def Let_def trace_simps)
      apply (elim exE conjE disjE)
      apply simp_all
      done
  qed
next
  case no_mapping: False
  show ?thesis
  proof (cases "init_method cfg")
    case None
    from run no_mapping None show ?thesis
      apply (simp add: level_2_pass_manager_def Let_def trace_simps)
      apply (elim exE conjE disjE)
      apply simp_all
      done
  next
    case (Some m)
    from run no_mapping Some show ?thesis
      apply (simp add: level_2_pass_manager_def Let_def trace_simps)
      apply (elim exE conjE disjE)
      apply simp_all
      done
  qed
qed

text \<open>
  Claim C6. When a lookup that a run of \<open>level_2_pass_manager\<close> performs fails, for
  instance with \<open>ResolutionError\<close> because the registry has no entry for the stage
  kind and method name, the run fails with that error: no staged pass manager is returned.
\<close>

theorem lookup_failure_aborts:
  assumes "snd (level_2_pass_manager reg cfg tr) = tr @ calls"
    and "(k, n) \<in> set calls"
    and "lookup reg k n cfg 2 = Inl e"
  shows "fst (level_2_pass_manager reg cfg tr) = Inl e"
proof -
  obtain r tr2 where run: "level_2_pass_manager reg cfg tr = (r, tr2)"
    by (cases "level_2_pass_manager reg cfg tr")
  from level_2_pass_manager_calls [OF run] assms(1) run
  have "\<forall>c \<in> set calls. \<forall>e. lookup reg (fst c) (snd c) cfg 2 = Inl e \<longrightarrow> r = Inl e"
    by auto
  with assms(2,3) have "r = Inl e"
    by fastforce
  with run show ?thesis
    by simp
qed

theorem lookup_failure_aborts_witness:
  "snd (level_2_pass_manager example_registry config_unknown_translation []) =
     [] @ [(''routing'', ''sabre''), (''translation'', ''bogus'')] \<and>
   lookup example_registry ''translation'' ''bogus'' config_unknown_translation 2 =
     Inl (ResolutionError ''translation'' ''bogus'') \<and>
   fst (level_2_pass_manager example_registry config_unknown_translation []) =
     Inl (ResolutionError ''translation'' ''bogus'')"
proof -
  have calls: "snd (level_2_pass_manager example_registry config_unknown_translation []) =
     [] @ [(''routing'', ''sabre''), (''translation'', ''bogus'')]"
    by (simp add: run_config_unknown_translation)
  have mem: "(''translation'', ''bogus'') \<in> set [(''routing'', ''sabre''), (''translation'', ''bogus'')]"
    by simp
  have fails: "lookup example_registry ''translation'' ''bogus'' config_unknown_translation 2 =
     Inl (ResolutionError ''translation'' ''bogus'')"
    by (simp add: lookup_def example_registry_def)
  from lookup_failure_aborts [OF calls mem fails] calls fails show ?thesis
    by simp
qed

text \<open>
  Claim C7 says that a selection that is present is looked up under exactly the supplied
  name. With the empty string as the routing method the lookup uses \<open>sabre\<close>:
  \<^verbatim>\<open>routing_method or "sabre"\<close> treats the empty string like \<^verbatim>\<open>None\<close>.
\<close>

theorem empty_selection_counterexample:
  "routing_method config_empty_routing = Some [] \<and>
   snd (level_2_pass_manager example_registry config_empty_routing []) =
     [(''routing'', ''sabre''), (''translation'', ''translator''),
      (''optimization'', ''default''), (''scheduling'', ''default'')]"
  by (simp add: run_config_empty_routing) (simp add: config_empty_routing_def)

text \<open>
  Claim C7, amended. Every lookup of a layout, routing, translation, optimization or
  scheduling stage uses the default name of the stage (\<open>default\<close>, \<open>sabre\<close>,
  \<open>translator\<close>, \<open>default\<close>, \<open>default\<close>) when the selection is absent or
  the empty string, and exactly the supplied name when the selection is present and not
  empty.
\<close>

theorem lookup_method_names:
  assumes "snd (level_2_pass_manager reg cfg tr) = tr @ calls"
    and "(k, n) \<in> set calls"
    and "(k, selection, default_name) \<in>
           set [(''layout'', layout_method cfg, ''default''),
                (''routing'', routing_method cfg, ''sabre''),
                (''translation'', translation_method cfg, ''translator''),
                (''optimization'', optimization_method cfg, ''default''),
                (''scheduling'', scheduling_method cfg, ''default'')]"
  shows "n = (case selection of
                None \<Rightarrow> default_name
              | Some s \<Rightarrow> if s = [] then default_name else s)"
proof -
  obtain r tr2 where run: "level_2_pass_manager reg cfg tr = (r, tr2)"
    by (cases "level_2_pass_manager reg cfg tr")
  from level_2_pass_manager_calls [OF run] assms(1) run
  have names: "\<forall>c \<in> set calls.
       (fst c = ''layout'' \<longrightarrow> snd c = str_or (layout_method cfg) ''default'') \<and>
       (fst c = ''routing'' \<longrightarrow> snd c = str_or (routing_method cfg) ''sabre'') \<and>
       (fst c = ''translation'' \<longrightarrow> snd c = str_or (translation_method cfg) ''translator'') \<and>
       (fst c = ''optimization'' \<longrightarrow> snd c = str_or (optimization_method cfg) ''default'') \<and>
       (fst c = ''scheduling'' \<longrightarrow> snd c = str_or (scheduling_method cfg) ''default'')"
    by auto
  from bspec [OF names assms(2)] assms(3) show ?thesis
    by (auto simp: str_or_def)
qed

theorem lookup_method_names_witness:
  "snd (level_2_pass_manager example_registry config_unknown_routing []) =
     [] @ [(''routing'', ''bogus'')] \<and>
   routing_method config_unknown_routing = Some ''bogus'' \<and>
   ''bogus'' = (case Some ''bogus'' of None \<Rightarrow> ''sabre''
                | Some s \<Rightarrow> if s = [] then ''sabre'' else s)"
proof -
  have calls: "snd (level_2_pass_manager example_registry config_unknown_routing []) =
     [] @ [(''routing'', ''bogus'')]"
    by (simp add: run_config_unknown_routing)
  have mem: "(''routing'', ''bogus'') \<in> set [(''routing'', ''bogus'')]"
    by simp
  have sel: "routing_method config_unknown_routing = Some ''bogus''"
    by (simp add: config_unknown_routing_def)
  have tab: "(''routing'', Some ''bogus'', ''sabre'') \<in>
           set [(''layout'', layout_method config_unknown_routing, ''default''),
                (''routing'', routing_method config_unknown_routing, ''sabre''),
                (''translation'', translation_method config_unknown_routing, ''translator''),
                (''optimization'', optimization_method config_unknown_routing, ''default''),
                (''scheduling'', scheduling_method config_unknown_routing, ''default'')]"
    by (simp add: sel)
  from lookup_method_names [OF calls mem tab] calls sel show ?thesis
    by simp
qed

subsection \<open>Eager and lazy resolution of the routing stage\<close>



lemma eager_routing_failure:
  assumes "lookup reg ''routing'' (str_or (routing_method cfg) ''sabre'') cfg 2 = Inl e"
  shows "level_2_pass_manager reg cfg tr =
           (Inl e, tr @ [(''routing'', str_or (routing_method cfg) ''sabre'')])"
  using assms
  by (simp add: level_2_pass_manager_def Let_def bind_traced_def get_passmanager_stage_def)




subsection \<open>A run is a single pass\<close>

text \<open>
  A run looks up each stage kind at most once: no lookup is retried.
\<close>

lemma lookups_not_retried:
  "\<exists>calls. snd (level_2_pass_manager reg cfg tr) = tr @ calls \<and> distinct (map fst calls)"
proof -
  obtain r tr2 where run: "level_2_pass_manager reg cfg tr = (r, tr2)"
    by (cases "level_2_pass_manager reg cfg tr")
  from level_2_pass_manager_calls [OF run] run show ?thesis
    by auto
qed

end
